theory Spec2Isabelle
  imports Main "HOL-Library.Sublist" "HOL-Library.Word"
begin

section \<open>A URL shortener: the handlers of app.py over an explicit table\<close>

text \<open>
  The service of \<^verbatim>\<open>src/app.py\<close> has one table (class \<^verbatim>\<open>URL\<close>) and two handlers,
  \<^verbatim>\<open>shorten_url\<close> (POST /shorten) and \<^verbatim>\<open>redirect_to_long_url\<close> (GET /<short_id>).
  Each handler is modelled as a function from the table before the request to the
  response and the table after it. What the handlers take from their environment is a
  parameter: the parsed request body, \<^verbatim>\<open>request.host_url\<close>, the database clock, and the
  random 128-bit integer that \<^verbatim>\<open>shortuuid.uuid()\<close> draws from \<^verbatim>\<open>uuid.uuid4()\<close>.
  Python strings are modelled as \<^typ>\<open>string\<close>.
\<close>

subsection \<open>Python values of a parsed JSON body\<close>

text \<open>
  \<^verbatim>\<open>request.get_json()\<close> returns the parsed body: \<^verbatim>\<open>None\<close>, a bool, an int, a float
  (kept as its IEEE 754 binary64 bit pattern), a str, a list or a dict (kept as its
  items, whose keys are pairwise different).
\<close>

datatype pyval =
    PNone
  | PBool bool
  | PInt int
  | PFloat "64 word"
  | PStr string
  | PList "pyval list"
  | PDict "(string \<times> pyval) list"

text \<open>
  Python truth value testing, as \<^verbatim>\<open>not long_url\<close> uses it: \<^verbatim>\<open>None\<close>, \<^verbatim>\<open>False\<close>,
  zero (for a float both \<^verbatim>\<open>0.0\<close> and \<^verbatim>\<open>-0.0\<close>, that is all bits but the sign bit
  clear) and empty containers are false; everything else is true.
\<close>

fun truthy :: "pyval \<Rightarrow> bool" where
  "truthy PNone = False"
| "truthy (PBool b) = b"
| "truthy (PInt i) = (i \<noteq> 0)"
| "truthy (PFloat w) = (take_bit 63 w \<noteq> 0)"
| "truthy (PStr s) = (s \<noteq> [])"
| "truthy (PList xs) = (xs \<noteq> [])"
| "truthy (PDict kvs) = (kvs \<noteq> [])"

text \<open>\<^verbatim>\<open>d.get(key)\<close> on a dict: the value, or \<^verbatim>\<open>None\<close> when the key is absent.\<close>

definition dict_get :: "(string \<times> pyval) list \<Rightarrow> string \<Rightarrow> pyval" where
  "dict_get kvs k = (case map_of kvs k of None \<Rightarrow> PNone | Some v \<Rightarrow> v)"

text \<open>\<^verbatim>\<open>s.startswith(('http://', 'https://'))\<close>: true when one of the prefixes matches.\<close>

definition startswith :: "string \<Rightarrow> string list \<Rightarrow> bool" where
  "startswith s ps = list_ex (\<lambda>p. prefix p s) ps"

subsection \<open>The short identifier generator\<close>

text \<open>
  Modelled from the spec: the generator \<^verbatim>\<open>shortuuid.uuid\<close> is a third-party package
  that app.py imports, and its code is not under \<^verbatim>\<open>src/\<close>. The specification (4.1,
  step 2) says that a candidate is drawn from a high-entropy random identifier
  space and truncated to 7 characters, with a URL-safe alphabet; claim C10 names the
  package's default base-57 alphabet. The definitions of this subsection follow the
  package's default instance: \<^verbatim>\<open>uuid()\<close> encodes the integer of a fresh
  \<^verbatim>\<open>uuid4()\<close> with \<^verbatim>\<open>int_to_string\<close> over the default 57-character alphabet, padded
  to 22 characters (the least length that holds 128 bits in base 57), most significant
  digit first. The random integer is the parameter \<open>n\<close>.
\<close>

definition alphabet :: string where
  "alphabet = ''23456789ABCDEFGHJKLMNPQRSTUVWXYZabcdefghijkmnopqrstuvwxyz''"

text \<open>
  The loop of \<^verbatim>\<open>int_to_string\<close>:
  \<^verbatim>\<open>while number: number, digit = divmod(number, alpha_len); output += alphabet[digit]\<close>
\<close>

function int_to_string_loop :: "nat \<Rightarrow> string \<Rightarrow> string" where
  "int_to_string_loop number output =
     (if number = 0 then output
      else int_to_string_loop (number div length alphabet)
             (output @ [alphabet ! (number mod length alphabet)]))"
  by pat_completeness auto
termination
  by (relation "measure fst") (auto simp: alphabet_def)

declare int_to_string_loop.simps [simp del]

text \<open>
  After the loop the output is padded with \<^verbatim>\<open>alphabet[0]\<close> up to \<^verbatim>\<open>padding\<close>
  characters (\<^verbatim>\<open>max(padding - len(output), 0)\<close> of them, which is the truncated
  subtraction of \<^typ>\<open>nat\<close>) and reversed.
\<close>

definition int_to_string :: "nat \<Rightarrow> nat \<Rightarrow> string" where
  "int_to_string number padding =
     (let output = int_to_string_loop number [];
          remainder = padding - length output
      in rev (output @ replicate remainder (alphabet ! 0)))"

definition shortuuid_uuid :: "nat \<Rightarrow> string" where
  "shortuuid_uuid n = int_to_string n 22"

subsection \<open>The table\<close>

text \<open>
  Class \<^verbatim>\<open>URL\<close>. An object built by the constructor has no \<^verbatim>\<open>id\<close> and no
  \<^verbatim>\<open>created_at\<close> yet; the database assigns both when the row is inserted.
\<close>

record URL =
  id_pk :: "nat option"
  short_id :: string
  long_url :: string
  created_at :: "nat option"

text \<open>
  \<^verbatim>\<open>URL.__init__(long_url, short_id=None)\<close>: without a given \<^verbatim>\<open>short_id\<close> the first seven
  characters of \<^verbatim>\<open>shortuuid.uuid()\<close> (the slice \<^verbatim>\<open>[:7]\<close>).
\<close>

definition URL_init :: "string \<Rightarrow> string option \<Rightarrow> nat \<Rightarrow> URL" where
  "URL_init l sid n =
     \<lparr> id_pk = None,
       short_id = (case sid of None \<Rightarrow> take 7 (shortuuid_uuid n) | Some c \<Rightarrow> c),
       long_url = l,
       created_at = None \<rparr>"

text \<open>The table is the list of its rows, in insertion order.\<close>

type_synonym store = "URL list"

fun max_id :: "store \<Rightarrow> nat" where
  "max_id [] = 0"
| "max_id (u # us) = max (case id_pk u of None \<Rightarrow> 0 | Some i \<Rightarrow> i) (max_id us)"

datatype exn = AttributeError | IntegrityError | ValueError

text \<open>
  \<^verbatim>\<open>db.session.add(new_url); db.session.commit()\<close>. Column \<^verbatim>\<open>short_id\<close> is declared
  \<^verbatim>\<open>unique=True\<close>: the database refuses a row whose \<^verbatim>\<open>short_id\<close> is already in the
  table, and the commit raises \<^verbatim>\<open>IntegrityError\<close>. Otherwise the row is appended with the
  next integer key and the time of the database clock.
\<close>

definition session_add_commit :: "nat \<Rightarrow> URL \<Rightarrow> store \<Rightarrow> exn + store" where
  "session_add_commit now u s =
     (if short_id u \<in> set (map short_id s) then Inl IntegrityError
      else Inr (s @ [u\<lparr>id_pk := Some (Suc (max_id s)), created_at := Some now\<rparr>]))"

text \<open>\<^verbatim>\<open>URL.query.filter_by(...).first()\<close>: the first row that matches, or \<^verbatim>\<open>None\<close>.\<close>

definition query_by_long_url :: "string \<Rightarrow> store \<Rightarrow> URL option" where
  "query_by_long_url l s = find (\<lambda>u. long_url u = l) s"

definition query_by_short_id :: "string \<Rightarrow> store \<Rightarrow> URL option" where
  "query_by_short_id c s = find (\<lambda>u. short_id u = c) s"

subsection \<open>The handlers\<close>

text \<open>
  A response is \<^verbatim>\<open>jsonify(body), status\<close>, or \<^verbatim>\<open>redirect(location, code)\<close>, or an
  exception that no handler catches, which the framework answers with status 500.
\<close>

datatype response =
    JsonResponse "(string \<times> string) list" nat
  | Redirect string nat
  | Unhandled exn

definition missing_url :: response where
  "missing_url = JsonResponse [(''error'', ''Missing 'url' parameter'')] 400"

definition bad_scheme :: response where
  "bad_scheme = JsonResponse [(''error'', ''URL must start with http:// or https://'')] 400"

definition already_shortened :: "string \<Rightarrow> string \<Rightarrow> response" where
  "already_shortened host_url c =
     JsonResponse [(''short_id'', c), (''short_url'', host_url @ c),
                   (''message'', ''URL already shortened'')] 200"

definition created :: "string \<Rightarrow> string \<Rightarrow> response" where
  "created host_url c =
     JsonResponse [(''short_id'', c), (''short_url'', host_url @ c)] 201"

definition not_found :: response where
  "not_found = JsonResponse [(''error'', ''Short URL not found'')] 404"

text \<open>
  \<^verbatim>\<open>shorten_url\<close>. \<open>data\<close> is what \<^verbatim>\<open>request.get_json()\<close> returned; \<^verbatim>\<open>data.get\<close> exists
  only on a dict, and \<^verbatim>\<open>long_url.startswith\<close> only on a str: on any other value the
  attribute lookup raises \<^verbatim>\<open>AttributeError\<close>.
\<close>

definition shorten_url :: "string \<Rightarrow> nat \<Rightarrow> nat \<Rightarrow> pyval \<Rightarrow> store \<Rightarrow> response \<times> store" where
  "shorten_url host_url n now data s =
     (case data of
        PDict kvs \<Rightarrow>
          (let v = dict_get kvs ''url'' in
           if \<not> truthy v then (missing_url, s)
           else
             (case v of
                PStr l \<Rightarrow>
                  if \<not> startswith l [''http://'', ''https://''] then (bad_scheme, s)
                  else
                    (case query_by_long_url l s of
                       Some existing_url \<Rightarrow>
                         (already_shortened host_url (short_id existing_url), s)
                     | None \<Rightarrow>
                         (let new_url = URL_init l None n in
                          case session_add_commit now new_url s of
                            Inl e \<Rightarrow> (Unhandled e, s)
                          | Inr s' \<Rightarrow> (created host_url (short_id new_url), s')))
              | _ \<Rightarrow> (Unhandled AttributeError, s)))
      | _ \<Rightarrow> (Unhandled AttributeError, s))"

text \<open>
  \<^verbatim>\<open>redirect(location, code)\<close> is the framework's function (Flask, from Werkzeug), not
  part of \<^verbatim>\<open>src/\<close>. It builds the response and sets its \<^verbatim>\<open>Location\<close> header to the
  string it was given; a header value that contains a carriage return or a line feed
  is refused with \<^verbatim>\<open>ValueError\<close> (\<^verbatim>\<open>Header values must not contain newline characters\<close>).
\<close>

definition has_newline :: "string \<Rightarrow> bool" where
  "has_newline v = list_ex (\<lambda>ch. ch = CHR 0x0D \<or> ch = CHR 0x0A) v"

definition redirect :: "string \<Rightarrow> nat \<Rightarrow> exn + response" where
  "redirect location code =
     (if has_newline location then Inl ValueError else Inr (Redirect location code))"

text \<open>
  \<^verbatim>\<open>redirect_to_long_url\<close>: a read of the table. The handler catches nothing, so the
  error of \<^verbatim>\<open>redirect\<close> is the outcome of the request.
\<close>

definition redirect_to_long_url :: "string \<Rightarrow> store \<Rightarrow> response \<times> store" where
  "redirect_to_long_url c s =
     (case query_by_short_id c s of
        Some url_entry \<Rightarrow>
          (case redirect (long_url url_entry) 302 of
             Inl e \<Rightarrow> (Unhandled e, s)
           | Inr r \<Rightarrow> (r, s))
      | None \<Rightarrow> (not_found, s))"

subsection \<open>Sequences of requests\<close>

text \<open>
  The two routes of the application (\<^verbatim>\<open>@app.route('/shorten', methods=['POST'])\<close> and
  \<^verbatim>\<open>@app.route('/<short_id>')\<close>). A request to the first carries the parsed body
  and the two values its handler reads from the environment (the random integer and
  the clock). Requests are served one after the other, each on the table the one
  before left.
\<close>

datatype request = Shorten pyval nat nat | Resolve string

definition handle_request :: "string \<Rightarrow> request \<Rightarrow> store \<Rightarrow> response \<times> store" where
  "handle_request host_url req s =
     (case req of
        Shorten data n now \<Rightarrow> shorten_url host_url n now data s
      | Resolve c \<Rightarrow> redirect_to_long_url c s)"

fun serve :: "string \<Rightarrow> request list \<Rightarrow> store \<Rightarrow> store" where
  "serve host_url [] s = s"
| "serve host_url (req # reqs) s = serve host_url reqs (snd (handle_request host_url req s))"

text \<open>
  The row that a creation writes: the object of \<^verbatim>\<open>URL(long_url=long_url)\<close> with the
  key and the time the database gave it.
\<close>

definition new_row :: "string \<Rightarrow> nat \<Rightarrow> nat \<Rightarrow> store \<Rightarrow> URL" where
  "new_row l n now s =
     \<lparr> id_pk = Some (Suc (max_id s)), short_id = take 7 (shortuuid_uuid n),
       long_url = l, created_at = Some now \<rparr>"

text \<open>The unreserved characters of a URI (RFC 3986, section 2.3).\<close>

definition unreserved :: string where
  "unreserved =
     ''ABCDEFGHIJKLMNOPQRSTUVWXYZabcdefghijklmnopqrstuvwxyz0123456789-._~''"

text \<open>
  Three integers of version 4 UUIDs, used as draws in the examples:
  \<^verbatim>\<open>00000000-0000-4000-8000-000000000000\<close>, \<^verbatim>\<open>00000000-0000-4000-8000-000000000001\<close>
  and \<^verbatim>\<open>12345678-9abc-4def-8123-456789abcdef\<close>.
\<close>

definition uuid_a :: nat where
  "uuid_a = 0x40008000000000000000"

definition uuid_b :: nat where
  "uuid_b = 0x40008000000000000001"

definition uuid_c :: nat where
  "uuid_c = 0x123456789ABC4DEF8123456789ABCDEF"

section \<open>Properties\<close>

subsection \<open>Queries on a list of rows\<close>

lemma find_snoc:
  "find P (xs @ [x]) =
     (case find P xs of Some y \<Rightarrow> Some y | None \<Rightarrow> if P x then Some x else None)"
  by (induction xs) auto




subsection \<open>The creation handler on a valid URL, and the table it leaves\<close>

lemma shorten_url_valid:
  assumes "dict_get kvs ''url'' = PStr l" "l \<noteq> []" "startswith l [''http://'', ''https://'']"
  shows "shorten_url host_url n now (PDict kvs) s =
           (case query_by_long_url l s of
              Some e \<Rightarrow> (already_shortened host_url (short_id e), s)
            | None \<Rightarrow>
                if take 7 (shortuuid_uuid n) \<in> set (map short_id s)
                then (Unhandled IntegrityError, s)
                else (created host_url (take 7 (shortuuid_uuid n)), s @ [new_row l n now s]))"
  using assms
  by (simp add: shorten_url_def session_add_commit_def URL_init_def new_row_def
      split: option.splits)

lemma shorten_url_store:
  "snd (shorten_url host_url n now data s) = s \<or>
   (\<exists>l. snd (shorten_url host_url n now data s) = s @ [new_row l n now s] \<and>
        l \<notin> set (map long_url s) \<and> take 7 (shortuuid_uuid n) \<notin> set (map short_id s))"
  by (auto simp: shorten_url_def session_add_commit_def URL_init_def new_row_def Let_def
      query_by_long_url_def find_None_iff
      split: pyval.splits option.splits)


subsection \<open>Invariants of serving requests\<close>

lemma serve_append_only: "prefix s (serve host_url reqs s)"
proof (induction reqs arbitrary: s)
  case Nil
  show ?case by simp
next
  case (Cons req reqs)
  have step: "prefix s (snd (handle_request host_url req s))"
  proof (cases req)
    case (Shorten data n now)
    then show ?thesis
      using shorten_url_store [of host_url n now data s]
      by (auto simp: handle_request_def)
  next
    case (Resolve c)
    then show ?thesis
      by (simp add: handle_request_def redirect_to_long_url_def split: option.splits sum.splits)
  qed
  from step Cons.IH [of "snd (handle_request host_url req s)"] show ?case
    by (auto intro: prefix_order.trans)
qed

lemma handle_request_short_ids:
  "distinct (map short_id s) \<Longrightarrow> distinct (map short_id (snd (handle_request host_url req s)))"
proof (cases req)
  case (Shorten data n now)
  assume "distinct (map short_id s)"
  with Shorten show ?thesis
    using shorten_url_store [of host_url n now data s]
    by (auto simp: handle_request_def new_row_def)
next
  case (Resolve c)
  assume "distinct (map short_id s)"
  with Resolve show ?thesis
    by (simp add: handle_request_def redirect_to_long_url_def split: option.splits sum.splits)
qed

lemma handle_request_long_urls:
  "distinct (map long_url s) \<Longrightarrow> distinct (map long_url (snd (handle_request host_url req s)))"
proof (cases req)
  case (Shorten data n now)
  assume "distinct (map long_url s)"
  with Shorten show ?thesis
    using shorten_url_store [of host_url n now data s]
    by (auto simp: handle_request_def new_row_def)
next
  case (Resolve c)
  assume "distinct (map long_url s)"
  with Resolve show ?thesis
    by (simp add: handle_request_def redirect_to_long_url_def split: option.splits sum.splits)
qed

lemma serve_short_ids:
  "distinct (map short_id s) \<Longrightarrow> distinct (map short_id (serve host_url reqs s))"
  by (induction reqs arbitrary: s) (simp_all add: handle_request_short_ids)

lemma serve_long_urls:
  "distinct (map long_url s) \<Longrightarrow> distinct (map long_url (serve host_url reqs s))"
  by (induction reqs arbitrary: s) (simp_all add: handle_request_long_urls)


subsection \<open>The generator's strings\<close>

lemma alphabet_length: "length alphabet = 57"
  by (simp add: alphabet_def)

lemma int_to_string_loop_0: "int_to_string_loop 0 acc = acc"
  by (simp add: int_to_string_loop.simps)

lemma int_to_string_loop_step:
  "number \<noteq> 0 \<Longrightarrow>
   int_to_string_loop number acc =
     int_to_string_loop (number div 57) (acc @ [alphabet ! (number mod 57)])"
  by (subst int_to_string_loop.simps) (simp add: alphabet_length)

lemma int_to_string_loop_chars:
  "set (int_to_string_loop number acc) \<subseteq> set acc \<union> set alphabet"
proof (induction number acc rule: int_to_string_loop.induct)
  case (1 number acc)
  show ?case
  proof (cases "number = 0")
    case True
    then show ?thesis by (simp add: int_to_string_loop_0)
  next
    case False
    have "number mod length alphabet < length alphabet"
      by (simp add: alphabet_length)
    then have "alphabet ! (number mod length alphabet) \<in> set alphabet"
      by (rule nth_mem)
    with False "1.IH" [OF False] show ?thesis
      by (subst int_to_string_loop.simps) auto
  qed
qed

lemma shortuuid_uuid_chars: "set (shortuuid_uuid n) \<subseteq> set alphabet"
proof -
  have "alphabet ! 0 \<in> set alphabet"
    by (rule nth_mem) (simp add: alphabet_length)
  with int_to_string_loop_chars [of n "[]"] show ?thesis
    by (auto simp: shortuuid_uuid_def int_to_string_def Let_def)
qed

lemma shortuuid_uuid_length: "22 \<le> length (shortuuid_uuid n)"
  by (simp add: shortuuid_uuid_def int_to_string_def Let_def)

lemma short_id_length: "length (take 7 (shortuuid_uuid n)) = 7"
  using shortuuid_uuid_length [of n] by simp

text \<open>
  The first two draws differ and encode to strings with the same first seven
  characters; the third gives another identifier.
\<close>

lemma replicate_7: "replicate 7 c = [c, c, c, c, c, c, c]"
  by (simp add: eval_nat_numeral)

lemma short_id_uuid_a: "take 7 (shortuuid_uuid uuid_a) = ''2222222''"
  by (simp add: uuid_a_def shortuuid_uuid_def int_to_string_def int_to_string_loop_0
      int_to_string_loop_step alphabet_def replicate_7)

lemma short_id_uuid_b: "take 7 (shortuuid_uuid uuid_b) = ''2222222''"
  by (simp add: uuid_b_def shortuuid_uuid_def int_to_string_def int_to_string_loop_0
      int_to_string_loop_step alphabet_def replicate_7)

lemma short_id_uuid_c: "take 7 (shortuuid_uuid uuid_c) = ''5FdNqHw''"
  by (simp add: uuid_c_def shortuuid_uuid_def int_to_string_def int_to_string_loop_0
      int_to_string_loop_step alphabet_def)

subsection \<open>Round trip\<close>

lemma shorten_url_accepted:
  assumes "dict_get kvs ''url'' = PStr l" and "l \<noteq> []"
    and "startswith l [''http://'', ''https://'']"
    and "shorten_url host_url n now (PDict kvs) s = (r, s')"
    and "r \<noteq> Unhandled IntegrityError"
  shows "\<exists>u. query_by_long_url l s' = Some u \<and>
             (r = created host_url (short_id u) \<and> s' = s @ [u] \<and>
                short_id u \<notin> set (map short_id s) \<or>
              r = already_shortened host_url (short_id u) \<and> s' = s)"
proof (cases "query_by_long_url l s")
  case None
  with assms have "r = created host_url (take 7 (shortuuid_uuid n))"
    and "s' = s @ [new_row l n now s]"
    and "take 7 (shortuuid_uuid n) \<notin> set (map short_id s)"
    by (auto simp: shorten_url_valid split: if_splits)
  moreover from None have "query_by_long_url l (s @ [new_row l n now s]) = Some (new_row l n now s)"
    by (simp add: query_by_long_url_def find_snoc new_row_def)
  ultimately show ?thesis
    by (auto simp: new_row_def)
next
  case (Some e)
  with assms have "r = already_shortened host_url (short_id e)" and "s' = s"
    by (auto simp: shorten_url_valid)
  with Some show ?thesis by auto
qed




subsection \<open>Repeated submission\<close>

text \<open>
  C2. When a creation request for a valid URL was answered with a short identifier, the
  same request sent again (whatever the generator and the clock give it) is answered
  200 with the same identifier and the message \<^verbatim>\<open>URL already shortened\<close>, and leaves
  the table as it is. Across any sequence of requests served one after the other, a
  table with at most one row per \<^verbatim>\<open>long_url\<close> keeps at most one row per \<^verbatim>\<open>long_url\<close>.
\<close>

theorem shorten_twice_same_short_id:
  assumes "dict_get kvs ''url'' = PStr l" and "l \<noteq> []"
    and "startswith l [''http://'', ''https://'']"
    and "shorten_url host_url n now (PDict kvs) s = (r, s')"
    and "r \<noteq> Unhandled IntegrityError"
  shows "(\<exists>c. (r = created host_url c \<or> r = already_shortened host_url c) \<and>
              shorten_url host_url n' now' (PDict kvs) s' =
                (JsonResponse [(''short_id'', c), (''short_url'', host_url @ c),
                               (''message'', ''URL already shortened'')] 200, s')) \<and>
         (distinct (map long_url tbl) \<longrightarrow> distinct (map long_url (serve host_url reqs tbl)))"
proof
  from shorten_url_accepted [OF assms] obtain u where
    q: "query_by_long_url l s' = Some u" and
    r: "r = created host_url (short_id u) \<and> s' = s @ [u] \<and>
          short_id u \<notin> set (map short_id s) \<or>
        r = already_shortened host_url (short_id u) \<and> s' = s"
    by blast
  from q have "shorten_url host_url n' now' (PDict kvs) s' =
      (already_shortened host_url (short_id u), s')"
    by (simp add: shorten_url_valid [OF assms(1-3)])
  with r show "\<exists>c. (r = created host_url c \<or> r = already_shortened host_url c) \<and>
              shorten_url host_url n' now' (PDict kvs) s' =
                (JsonResponse [(''short_id'', c), (''short_url'', host_url @ c),
                               (''message'', ''URL already shortened'')] 200, s')"
    unfolding already_shortened_def by blast
next
  show "distinct (map long_url tbl) \<longrightarrow> distinct (map long_url (serve host_url reqs tbl))"
    by (simp add: serve_long_urls)
qed

text \<open>
  \<^verbatim>\<open>https://example.com/a\<close> submitted twice, starting from the empty table.
\<close>

theorem shorten_twice_same_short_id_witness:
  "shorten_url ''http://localhost:5000/'' uuid_b 1700000060
     (PDict [(''url'', PStr ''https://example.com/a'')])
     (snd (shorten_url ''http://localhost:5000/'' uuid_a 1700000000
             (PDict [(''url'', PStr ''https://example.com/a'')]) [])) =
   (JsonResponse [(''short_id'', ''2222222''),
                  (''short_url'', ''http://localhost:5000/2222222''),
                  (''message'', ''URL already shortened'')] 200,
    [\<lparr> id_pk = Some 1, short_id = ''2222222'', long_url = ''https://example.com/a'',
       created_at = Some 1700000000 \<rparr>]) \<and>
   distinct (map long_url
     (serve ''http://localhost:5000/''
        [Shorten (PDict [(''url'', PStr ''https://example.com/a'')]) uuid_a 1700000000,
         Shorten (PDict [(''url'', PStr ''https://example.com/a'')]) uuid_b 1700000060] []))"
proof -
  let ?h = "''http://localhost:5000/''"
  let ?kvs = "[(''url'', PStr ''https://example.com/a'')]"
  let ?row = "\<lparr> id_pk = Some 1, short_id = ''2222222'', long_url = ''https://example.com/a'',
       created_at = Some 1700000000 \<rparr>"
  let ?reqs = "[Shorten (PDict ?kvs) uuid_a 1700000000, Shorten (PDict ?kvs) uuid_b 1700000060]"
  have get: "dict_get ?kvs ''url'' = PStr ''https://example.com/a''"
    by (simp add: dict_get_def)
  have ok: "startswith ''https://example.com/a'' [''http://'', ''https://'']"
    by (simp add: startswith_def)
  have run: "shorten_url ?h uuid_a 1700000000 (PDict ?kvs) [] = (created ?h ''2222222'', [?row])"
    by (simp add: shorten_url_valid [OF get _ ok] query_by_long_url_def short_id_uuid_a
        new_row_def)
  have inst: "(\<exists>c. (created ?h ''2222222'' = created ?h c \<or>
                  created ?h ''2222222'' = already_shortened ?h c) \<and>
              shorten_url ?h uuid_b 1700000060 (PDict ?kvs) [?row] =
                (JsonResponse [(''short_id'', c), (''short_url'', ?h @ c),
                               (''message'', ''URL already shortened'')] 200, [?row])) \<and>
         (distinct (map long_url []) \<longrightarrow> distinct (map long_url (serve ?h ?reqs [])))"
    using shorten_twice_same_short_id [where n' = uuid_b and now' = 1700000060 and tbl = "[]"
        and reqs = ?reqs, OF get _ ok run]
    by (simp add: created_def)
  then have "shorten_url ?h uuid_b 1700000060 (PDict ?kvs) [?row] =
      (JsonResponse [(''short_id'', ''2222222''), (''short_url'', ?h @ ''2222222''),
                     (''message'', ''URL already shortened'')] 200, [?row])"
    by (auto simp: created_def already_shortened_def)
  moreover from inst have "distinct (map long_url (serve ?h ?reqs []))"
    by simp
  ultimately show ?thesis
    using run by simp
qed

subsection \<open>Short identifier collisions\<close>

text \<open>
  C3, as the code has it. When the identifier generated for a new URL is already in the
  table, the handler draws no second candidate: the \<^verbatim>\<open>IntegrityError\<close> of the commit
  is not caught, the request fails with it, and the table is unchanged.
\<close>

theorem shorten_url_collision_unhandled:
  assumes "dict_get kvs ''url'' = PStr l" and "l \<noteq> []"
    and "startswith l [''http://'', ''https://'']"
    and "query_by_long_url l s = None"
    and "take 7 (shortuuid_uuid n) \<in> set (map short_id s)"
  shows "shorten_url host_url n now (PDict kvs) s = (Unhandled IntegrityError, s)"
  using assms(4,5) by (simp add: shorten_url_valid [OF assms(1-3)])

text \<open>
  The row of \<^verbatim>\<open>https://example.com/a\<close> carries the identifier of the first example
  draw; the request for another URL draws the second.
\<close>

theorem shorten_url_collision_unhandled_witness:
  "shorten_url ''http://localhost:5000/'' uuid_b 1700000060
     (PDict [(''url'', PStr ''https://example.com/b'')])
     [\<lparr> id_pk = Some 1, short_id = ''2222222'', long_url = ''https://example.com/a'',
        created_at = Some 1700000000 \<rparr>] =
   (Unhandled IntegrityError,
    [\<lparr> id_pk = Some 1, short_id = ''2222222'', long_url = ''https://example.com/a'',
        created_at = Some 1700000000 \<rparr>])"
proof -
  have get: "dict_get [(''url'', PStr ''https://example.com/b'')] ''url'' =
      PStr ''https://example.com/b''"
    by (simp add: dict_get_def)
  have ok: "startswith ''https://example.com/b'' [''http://'', ''https://'']"
    by (simp add: startswith_def)
  show ?thesis
    by (rule shorten_url_collision_unhandled [OF get _ ok])
       (simp_all add: query_by_long_url_def short_id_uuid_b)
qed

text \<open>
  The claim as the specification words it fails on the code: with \<^verbatim>\<open>2222222\<close> taken
  (the identifier of the first example draw), a request whose draw is the second
  example draw ends in the storage error at the first rejection, although the third
  draw would have given the free identifier \<^verbatim>\<open>5FdNqHw\<close> and a 201.
\<close>

theorem shorten_url_retry_counterexample:
  "shorten_url ''http://localhost:5000/'' uuid_b 1700000060
     (PDict [(''url'', PStr ''http://example.org/'')])
     [\<lparr> id_pk = Some 1, short_id = ''2222222'', long_url = ''https://example.com/a'',
        created_at = Some 1700000000 \<rparr>] =
   (Unhandled IntegrityError,
    [\<lparr> id_pk = Some 1, short_id = ''2222222'', long_url = ''https://example.com/a'',
        created_at = Some 1700000000 \<rparr>]) \<and>
   shorten_url ''http://localhost:5000/'' uuid_c 1700000060
     (PDict [(''url'', PStr ''http://example.org/'')])
     [\<lparr> id_pk = Some 1, short_id = ''2222222'', long_url = ''https://example.com/a'',
        created_at = Some 1700000000 \<rparr>] =
   (JsonResponse [(''short_id'', ''5FdNqHw''),
                  (''short_url'', ''http://localhost:5000/5FdNqHw'')] 201,
    [\<lparr> id_pk = Some 1, short_id = ''2222222'', long_url = ''https://example.com/a'',
        created_at = Some 1700000000 \<rparr>,
     \<lparr> id_pk = Some 2, short_id = ''5FdNqHw'', long_url = ''http://example.org/'',
        created_at = Some 1700000060 \<rparr>])"
proof -
  let ?kvs = "[(''url'', PStr ''http://example.org/'')]"
  have get: "dict_get ?kvs ''url'' = PStr ''http://example.org/''"
    by (simp add: dict_get_def)
  have ok: "startswith ''http://example.org/'' [''http://'', ''https://'']"
    by (simp add: startswith_def)
  show ?thesis
    by (simp add: shorten_url_valid [OF get _ ok] query_by_long_url_def short_id_uuid_b
        short_id_uuid_c new_row_def created_def)
qed

subsection \<open>Input validation\<close>

lemma shorten_url_falsy:
  "\<not> truthy (dict_get kvs ''url'') \<Longrightarrow>
   shorten_url host_url n now (PDict kvs) s = (missing_url, s)"
  by (simp add: shorten_url_def)

lemma shorten_url_bad_scheme:
  "dict_get kvs ''url'' = PStr l \<Longrightarrow> l \<noteq> [] \<Longrightarrow>
   \<not> startswith l [''http://'', ''https://''] \<Longrightarrow>
   shorten_url host_url n now (PDict kvs) s = (bad_scheme, s)"
  by (simp add: shorten_url_def)

lemma shorten_url_valid_status:
  assumes "dict_get kvs ''url'' = PStr l" and "l \<noteq> []"
    and "startswith l [''http://'', ''https://'']"
  shows "fst (shorten_url host_url n now (PDict kvs) s) \<noteq> JsonResponse b 400"
  by (simp add: shorten_url_valid [OF assms] created_def already_shortened_def
      split: option.splits)

text \<open>
  C4. On a body whose \<^verbatim>\<open>url\<close> is absent, \<^verbatim>\<open>null\<close> or a string, the handler answers 400
  exactly when the URL is absent or empty (then with \<^verbatim>\<open>Missing 'url' parameter\<close>) or is
  a non-empty string that starts with neither \<^verbatim>\<open>http://\<close> nor \<^verbatim>\<open>https://\<close> (then with
  \<^verbatim>\<open>URL must start with http:// or https://\<close>); in both cases the table is unchanged.
  A non-empty string with one of the two prefixes is never answered 400.
\<close>

theorem shorten_url_invalid_input:
  "(dict_get kvs ''url'' = PNone \<or> dict_get kvs ''url'' = PStr [] \<longrightarrow>
      shorten_url host_url n now (PDict kvs) s =
        (JsonResponse [(''error'', ''Missing 'url' parameter'')] 400, s)) \<and>
   (dict_get kvs ''url'' = PStr l \<and> l \<noteq> [] \<and>
      \<not> startswith l [''http://'', ''https://''] \<longrightarrow>
      shorten_url host_url n now (PDict kvs) s =
        (JsonResponse [(''error'', ''URL must start with http:// or https://'')] 400, s)) \<and>
   (dict_get kvs ''url'' = PStr l \<and> l \<noteq> [] \<and>
      startswith l [''http://'', ''https://''] \<longrightarrow>
      (\<forall>b. fst (shorten_url host_url n now (PDict kvs) s) \<noteq> JsonResponse b 400))"
proof (intro conjI impI allI)
  assume "dict_get kvs ''url'' = PNone \<or> dict_get kvs ''url'' = PStr []"
  then have "\<not> truthy (dict_get kvs ''url'')" by auto
  then show "shorten_url host_url n now (PDict kvs) s =
      (JsonResponse [(''error'', ''Missing 'url' parameter'')] 400, s)"
    by (simp add: shorten_url_falsy missing_url_def)
next
  assume "dict_get kvs ''url'' = PStr l \<and> l \<noteq> [] \<and>
      \<not> startswith l [''http://'', ''https://'']"
  then show "shorten_url host_url n now (PDict kvs) s =
      (JsonResponse [(''error'', ''URL must start with http:// or https://'')] 400, s)"
    by (simp add: shorten_url_bad_scheme bad_scheme_def)
next
  fix b
  assume "dict_get kvs ''url'' = PStr l \<and> l \<noteq> [] \<and> startswith l [''http://'', ''https://'']"
  then show "fst (shorten_url host_url n now (PDict kvs) s) \<noteq> JsonResponse b 400"
    by (simp add: shorten_url_valid_status)
qed

text \<open>
  The inputs of the specification: \<^verbatim>\<open>ftp://example.com\<close> and the empty string are
  rejected and nothing is stored; so is a body without \<^verbatim>\<open>url\<close>.
\<close>

theorem shorten_url_invalid_input_witness:
  "shorten_url ''http://localhost:5000/'' uuid_a 1700000000
     (PDict [(''url'', PStr ''ftp://example.com'')]) [] =
     (JsonResponse [(''error'', ''URL must start with http:// or https://'')] 400, []) \<and>
   shorten_url ''http://localhost:5000/'' uuid_a 1700000000 (PDict [(''url'', PStr [])]) [] =
     (JsonResponse [(''error'', ''Missing 'url' parameter'')] 400, []) \<and>
   shorten_url ''http://localhost:5000/'' uuid_a 1700000000 (PDict []) [] =
     (JsonResponse [(''error'', ''Missing 'url' parameter'')] 400, [])"
  using shorten_url_invalid_input [of "[(''url'', PStr ''ftp://example.com'')]"
      "''http://localhost:5000/''" uuid_a 1700000000 "[]" "''ftp://example.com''"]
    shorten_url_invalid_input [of "[(''url'', PStr [])]"
      "''http://localhost:5000/''" uuid_a 1700000000 "[]" "[]"]
    shorten_url_invalid_input [of "[]" "''http://localhost:5000/''" uuid_a 1700000000 "[]" "[]"]
  by (simp add: dict_get_def startswith_def)

subsection \<open>Values that are not strings\<close>

text \<open>
  C9, as the code has it. When the value of \<^verbatim>\<open>url\<close> is not a string, the handler
  raises \<^verbatim>\<open>AttributeError\<close> at \<^verbatim>\<open>long_url.startswith\<close> if the value is true in
  Python's truth value testing (a non-zero number, \<^verbatim>\<open>true\<close>, a non-empty array
  or object); if it is false (\<^verbatim>\<open>null\<close>, \<^verbatim>\<open>false\<close>, zero, an empty array or object) the
  first check answers 400 with \<^verbatim>\<open>Missing 'url' parameter\<close>. The table is unchanged
  either way.
\<close>

theorem shorten_url_non_string:
  assumes "dict_get kvs ''url'' = v" and "\<forall>l. v \<noteq> PStr l"
  shows "shorten_url host_url n now (PDict kvs) s =
           (if truthy v then (Unhandled AttributeError, s)
            else (JsonResponse [(''error'', ''Missing 'url' parameter'')] 400, s))"
  using assms by (cases v) (simp_all add: shorten_url_def missing_url_def)

theorem shorten_url_non_string_witness:
  "shorten_url ''http://localhost:5000/'' uuid_a 1700000000 (PDict [(''url'', PInt 5)]) [] =
     (Unhandled AttributeError, []) \<and>
   shorten_url ''http://localhost:5000/'' uuid_a 1700000000 (PDict [(''url'', PBool True)]) [] =
     (Unhandled AttributeError, []) \<and>
   shorten_url ''http://localhost:5000/'' uuid_a 1700000000 (PDict [(''url'', PList [])]) [] =
     (JsonResponse [(''error'', ''Missing 'url' parameter'')] 400, [])"
  using shorten_url_non_string [of "[(''url'', PInt 5)]" "PInt 5"
      "''http://localhost:5000/''" uuid_a 1700000000 "[]"]
    shorten_url_non_string [of "[(''url'', PBool True)]" "PBool True"
      "''http://localhost:5000/''" uuid_a 1700000000 "[]"]
    shorten_url_non_string [of "[(''url'', PList [])]" "PList []"
      "''http://localhost:5000/''" uuid_a 1700000000 "[]"]
  by (simp add: dict_get_def)

text \<open>
  The claim as worded (every present value that is not a string raises) fails for the
  JSON number \<^verbatim>\<open>0\<close> and the boolean \<^verbatim>\<open>false\<close>: both are answered 400.
\<close>

theorem shorten_url_non_string_counterexample:
  "shorten_url ''http://localhost:5000/'' uuid_a 1700000000 (PDict [(''url'', PInt 0)]) [] =
     (JsonResponse [(''error'', ''Missing 'url' parameter'')] 400, []) \<and>
   shorten_url ''http://localhost:5000/'' uuid_a 1700000000 (PDict [(''url'', PBool False)]) [] =
     (JsonResponse [(''error'', ''Missing 'url' parameter'')] 400, [])"
  by (simp add: shorten_url_def dict_get_def missing_url_def)

subsection \<open>Resolution\<close>




subsection \<open>Uniqueness of short identifiers\<close>

text \<open>
  C6. The uniqueness of \<^verbatim>\<open>short_id\<close> is an invariant of the table: whatever requests
  are served, and whatever the generator draws, a table with pairwise distinct short
  identifiers keeps them pairwise distinct. The insert itself enforces it: a row whose
  \<^verbatim>\<open>short_id\<close> is in the table is refused with \<^verbatim>\<open>IntegrityError\<close>, and an accepted insert
  keeps the identifiers distinct.
\<close>

theorem short_id_unique_invariant:
  "(distinct (map short_id s) \<longrightarrow> distinct (map short_id (serve host_url reqs s))) \<and>
   (short_id u \<in> set (map short_id s) \<longrightarrow> session_add_commit now u s = Inl IntegrityError) \<and>
   (distinct (map short_id s) \<and> session_add_commit now u s = Inr s' \<longrightarrow>
      distinct (map short_id s'))"
proof (intro conjI impI)
  assume "distinct (map short_id s)"
  then show "distinct (map short_id (serve host_url reqs s))"
    by (rule serve_short_ids)
next
  assume "short_id u \<in> set (map short_id s)"
  then show "session_add_commit now u s = Inl IntegrityError"
    by (simp add: session_add_commit_def)
next
  assume "distinct (map short_id s) \<and> session_add_commit now u s = Inr s'"
  then show "distinct (map short_id s')"
    by (auto simp: session_add_commit_def split: if_splits)
qed

text \<open>
  Two different URLs whose different draws encode to the same identifier: the second
  insert is refused.
\<close>

theorem short_id_unique_invariant_witness:
  "distinct (map short_id
     (serve ''http://localhost:5000/''
        [Shorten (PDict [(''url'', PStr ''https://example.com/a'')]) uuid_a 1700000000,
         Shorten (PDict [(''url'', PStr ''https://example.com/b'')]) uuid_b 1700000060] [])) \<and>
   session_add_commit 1700000060 (URL_init ''https://example.com/b'' None uuid_b)
     [\<lparr> id_pk = Some 1, short_id = ''2222222'', long_url = ''https://example.com/a'',
        created_at = Some 1700000000 \<rparr>] = Inl IntegrityError"
  using short_id_unique_invariant [of "[]" "''http://localhost:5000/''"
      "[Shorten (PDict [(''url'', PStr ''https://example.com/a'')]) uuid_a 1700000000,
        Shorten (PDict [(''url'', PStr ''https://example.com/b'')]) uuid_b 1700000060]"]
    short_id_unique_invariant [of
      "[\<lparr> id_pk = Some 1, short_id = ''2222222'', long_url = ''https://example.com/a'',
          created_at = Some 1700000000 \<rparr>]" _ _
      "URL_init ''https://example.com/b'' None uuid_b" 1700000060]
  by (simp add: URL_init_def short_id_uuid_b)

subsection \<open>What a creation writes\<close>

lemma shorten_url_outcomes:
  "shorten_url host_url n now data s = (r, s') \<Longrightarrow>
   (\<exists>l. r = created host_url (take 7 (shortuuid_uuid n)) \<and> s' = s @ [new_row l n now s]) \<or>
   ((\<forall>b. r \<noteq> JsonResponse b 201) \<and> s' = s)"
  by (auto simp: shorten_url_def session_add_commit_def URL_init_def new_row_def Let_def
      created_def already_shortened_def missing_url_def bad_scheme_def
      split: pyval.splits option.splits if_splits)

text \<open>
  C7. The constructor's generated \<^verbatim>\<open>short_id\<close> has exactly seven characters: the first
  seven of the generator's string, which has at least 22. Every 201 response carries
  that identifier, and it is the \<^verbatim>\<open>short_id\<close> of the one row added.
\<close>

theorem new_short_id_length:
  "length (short_id (URL_init l None n)) = 7 \<and>
   short_id (URL_init l None n) = take 7 (shortuuid_uuid n) \<and>
   (shorten_url host_url n now data s = (JsonResponse body 201, s') \<longrightarrow>
      (\<exists>c u. body = [(''short_id'', c), (''short_url'', host_url @ c)] \<and>
             c = take 7 (shortuuid_uuid n) \<and> length c = 7 \<and>
             s' = s @ [u] \<and> short_id u = c))"
proof (intro conjI impI)
  show "length (short_id (URL_init l None n)) = 7"
    using short_id_length [of n] by (simp add: URL_init_def)
  show "short_id (URL_init l None n) = take 7 (shortuuid_uuid n)"
    by (simp add: URL_init_def)
next
  assume "shorten_url host_url n now data s = (JsonResponse body 201, s')"
  from shorten_url_outcomes [OF this]
  obtain l' where "JsonResponse body 201 = created host_url (take 7 (shortuuid_uuid n))"
    and "s' = s @ [new_row l' n now s]"
    by blast
  then have "body = [(''short_id'', take 7 (shortuuid_uuid n)),
                     (''short_url'', host_url @ take 7 (shortuuid_uuid n))]"
    and "s' = s @ [new_row l' n now s]"
    and "short_id (new_row l' n now s) = take 7 (shortuuid_uuid n)"
    by (simp_all add: created_def new_row_def)
  then show "\<exists>c u. body = [(''short_id'', c), (''short_url'', host_url @ c)] \<and>
             c = take 7 (shortuuid_uuid n) \<and> length c = 7 \<and>
             s' = s @ [u] \<and> short_id u = c"
    using short_id_length [of n] by blast
qed

text \<open>The scenario of the specification: a 201 with a seven-character identifier.\<close>

theorem new_short_id_length_witness:
  "shorten_url ''http://localhost:5000/'' uuid_a 1700000000
     (PDict [(''url'', PStr ''https://example.com/a'')]) [] =
     (JsonResponse [(''short_id'', ''2222222''),
                    (''short_url'', ''http://localhost:5000/2222222'')] 201,
      [\<lparr> id_pk = Some 1, short_id = ''2222222'', long_url = ''https://example.com/a'',
         created_at = Some 1700000000 \<rparr>]) \<and>
   length ''2222222'' = 7"
proof -
  let ?h = "''http://localhost:5000/''"
  let ?kvs = "[(''url'', PStr ''https://example.com/a'')]"
  let ?row = "\<lparr> id_pk = Some 1, short_id = ''2222222'', long_url = ''https://example.com/a'',
       created_at = Some 1700000000 \<rparr>"
  have get: "dict_get ?kvs ''url'' = PStr ''https://example.com/a''"
    by (simp add: dict_get_def)
  have ok: "startswith ''https://example.com/a'' [''http://'', ''https://'']"
    by (simp add: startswith_def)
  have run: "shorten_url ?h uuid_a 1700000000 (PDict ?kvs) [] =
      (JsonResponse [(''short_id'', ''2222222''), (''short_url'', ?h @ ''2222222'')] 201,
       [?row])"
    by (simp add: shorten_url_valid [OF get _ ok] query_by_long_url_def short_id_uuid_a
        new_row_def created_def)
  from new_short_id_length [of "''https://example.com/a''" uuid_a ?h 1700000000 "PDict ?kvs" "[]"
      "[(''short_id'', ''2222222''), (''short_url'', ?h @ ''2222222'')]" "[?row]"] run
  have "length (take 7 (shortuuid_uuid uuid_a)) = 7"
    by auto
  with run show ?thesis
    by (simp add: short_id_uuid_a)
qed

subsection \<open>Frame\<close>

text \<open>
  C8. A creation answered 201 appends exactly one row and leaves the rows before it as
  they were; every other outcome of the creation handler (the 200 of a known URL among
  them) leaves the table as it is; resolution leaves the table as it is. So whatever
  requests are served, the table before them is a prefix of the table after them: no
  row is changed or removed.
\<close>

theorem store_frame:
  "(shorten_url host_url n now data s = (r, s') \<longrightarrow>
      ((\<exists>b. r = JsonResponse b 201) \<longrightarrow> (\<exists>u. s' = s @ [u])) \<and>
      ((\<forall>b. r \<noteq> JsonResponse b 201) \<longrightarrow> s' = s)) \<and>
   snd (redirect_to_long_url c s) = s \<and>
   prefix s (serve host_url reqs s)"
proof (intro conjI impI)
  assume run: "shorten_url host_url n now data s = (r, s')"
  from shorten_url_outcomes [OF run]
  show "\<exists>u. s' = s @ [u]" if "\<exists>b. r = JsonResponse b 201"
    using that by blast
  from shorten_url_outcomes [OF run]
  show "s' = s" if "\<forall>b. r \<noteq> JsonResponse b 201"
    using that by (auto simp: created_def)
next
  show "snd (redirect_to_long_url c s) = s"
    by (simp add: redirect_to_long_url_def split: option.splits sum.splits)
  show "prefix s (serve host_url reqs s)"
    by (rule serve_append_only)
qed

text \<open>
  A creation, the same URL again, and two resolutions: one row is added, by the first
  request only.
\<close>

theorem store_frame_witness:
  "serve ''http://localhost:5000/''
     [Shorten (PDict [(''url'', PStr ''https://example.com/b'')]) uuid_c 1700000060,
      Shorten (PDict [(''url'', PStr ''https://example.com/b'')]) uuid_a 1700000120,
      Resolve ''5FdNqHw'', Resolve ''zzzzzzz'']
     [\<lparr> id_pk = Some 1, short_id = ''2222222'', long_url = ''https://example.com/a'',
        created_at = Some 1700000000 \<rparr>] =
   [\<lparr> id_pk = Some 1, short_id = ''2222222'', long_url = ''https://example.com/a'',
       created_at = Some 1700000000 \<rparr>,
    \<lparr> id_pk = Some 2, short_id = ''5FdNqHw'', long_url = ''https://example.com/b'',
       created_at = Some 1700000060 \<rparr>] \<and>
   prefix
     [\<lparr> id_pk = Some 1, short_id = ''2222222'', long_url = ''https://example.com/a'',
        created_at = Some 1700000000 \<rparr>]
     (serve ''http://localhost:5000/''
        [Shorten (PDict [(''url'', PStr ''https://example.com/b'')]) uuid_c 1700000060,
         Shorten (PDict [(''url'', PStr ''https://example.com/b'')]) uuid_a 1700000120,
         Resolve ''5FdNqHw'', Resolve ''zzzzzzz'']
        [\<lparr> id_pk = Some 1, short_id = ''2222222'', long_url = ''https://example.com/a'',
           created_at = Some 1700000000 \<rparr>])"
proof -
  let ?h = "''http://localhost:5000/''"
  let ?kvs = "[(''url'', PStr ''https://example.com/b'')]"
  let ?a = "\<lparr> id_pk = Some 1, short_id = ''2222222'', long_url = ''https://example.com/a'',
       created_at = Some 1700000000 \<rparr>"
  let ?reqs = "[Shorten (PDict ?kvs) uuid_c 1700000060,
      Shorten (PDict ?kvs) uuid_a 1700000120, Resolve ''5FdNqHw'', Resolve ''zzzzzzz'']"
  have get: "dict_get ?kvs ''url'' = PStr ''https://example.com/b''"
    by (simp add: dict_get_def)
  have ok: "startswith ''https://example.com/b'' [''http://'', ''https://'']"
    by (simp add: startswith_def)
  have run: "serve ?h ?reqs [?a] =
      [?a, \<lparr> id_pk = Some 2, short_id = ''5FdNqHw'', long_url = ''https://example.com/b'',
             created_at = Some 1700000060 \<rparr>]"
    by (simp add: handle_request_def shorten_url_valid [OF get _ ok] query_by_long_url_def
        short_id_uuid_c new_row_def redirect_to_long_url_def query_by_short_id_def
        redirect_def has_newline_def)
  have first: "shorten_url ?h uuid_c 1700000060 (PDict ?kvs) [?a] =
      (JsonResponse [(''short_id'', ''5FdNqHw''), (''short_url'', ?h @ ''5FdNqHw'')] 201,
       [?a, \<lparr> id_pk = Some 2, short_id = ''5FdNqHw'', long_url = ''https://example.com/b'',
               created_at = Some 1700000060 \<rparr>])"
    by (simp add: shorten_url_valid [OF get _ ok] query_by_long_url_def short_id_uuid_c
        new_row_def created_def)
  from first
    store_frame [of ?h uuid_c 1700000060 "PDict ?kvs" "[?a]"
      "JsonResponse [(''short_id'', ''5FdNqHw''), (''short_url'', ?h @ ''5FdNqHw'')] 201"
      "[?a, \<lparr> id_pk = Some 2, short_id = ''5FdNqHw'', long_url = ''https://example.com/b'',
              created_at = Some 1700000060 \<rparr>]" "''5FdNqHw''" ?reqs]
  have "(\<exists>u. [?a, \<lparr> id_pk = Some 2, short_id = ''5FdNqHw'',
                      long_url = ''https://example.com/b'',
                      created_at = Some 1700000060 \<rparr>] = [?a] @ [u]) \<and>
        prefix [?a] (serve ?h ?reqs [?a])"
    by blast
  with run show ?thesis by simp
qed


subsection \<open>The alphabet of generated identifiers\<close>

text \<open>
  C10. A generated \<^verbatim>\<open>short_id\<close> consists of characters of the generator's alphabet.
  The alphabet has 57 different characters, none of them \<^verbatim>\<open>0\<close>, \<^verbatim>\<open>O\<close>, \<^verbatim>\<open>I\<close>, \<^verbatim>\<open>l\<close>
  or \<^verbatim>\<open>1\<close>, and all of them unreserved in a URI; so no generated identifier
  contains one of the five, and every character of it is unreserved.
\<close>

theorem short_id_alphabet:
  "set (short_id (URL_init l None n)) \<subseteq> set alphabet \<and>
   length alphabet = 57 \<and> distinct alphabet \<and>
   set alphabet \<inter> set ''0OIl1'' = {} \<and>
   set alphabet \<subseteq> set unreserved \<and>
   set (short_id (URL_init l None n)) \<inter> set ''0OIl1'' = {} \<and>
   set (short_id (URL_init l None n)) \<subseteq> set unreserved"
proof -
  have chars: "set (short_id (URL_init l None n)) \<subseteq> set alphabet"
    using shortuuid_uuid_chars [of n] set_take_subset [of 7 "shortuuid_uuid n"]
    by (auto simp: URL_init_def)
  have amb: "set alphabet \<inter> set ''0OIl1'' = {}"
    by (simp add: alphabet_def)
  have safe: "set alphabet \<subseteq> set unreserved"
    by (simp add: alphabet_def unreserved_def)
  have "distinct alphabet"
    by (simp add: alphabet_def)
  with chars amb safe show ?thesis
    by (auto simp: alphabet_length)
qed

text \<open>The identifier of the first example draw.\<close>

theorem short_id_alphabet_witness:
  "short_id (URL_init ''https://example.com/a'' None uuid_a) = ''2222222'' \<and>
   set ''2222222'' \<subseteq> set alphabet \<and> set ''2222222'' \<inter> set ''0OIl1'' = {}"
  using short_id_alphabet [of "''https://example.com/a''" uuid_a]
  by (simp add: URL_init_def short_id_uuid_a)

end
